theory Spec2Isabelle
  imports Complex_Main "HOL-Library.Sublist"
begin

section \<open>The browser client: values, requests and responses\<close>

text \<open>
  The JavaScript values that reach the functions modelled here. A parameter default
  (\<^verbatim>\<open>parishId = 'default'\<close>) replaces \<^verbatim>\<open>undefined\<close> only: \<^verbatim>\<open>null\<close> is passed on.
  Strings are lists of 8-bit characters, read as code units of the Latin-1 range.
\<close>

datatype js_value = Undefined | Null | JBool bool | JStr string

datatype js_error = Error string | TypeError string | SyntaxError string

fun message :: "js_error \<Rightarrow> string" where
  "message (Error m) = m"
| "message (TypeError m) = m"
| "message (SyntaxError m) = m"

definition default_param :: "js_value \<Rightarrow> js_value \<Rightarrow> js_value" where
  "default_param d v = (if v = Undefined then d else v)"

text \<open>
  \<^verbatim>\<open>v.toString()\<close>: a method call, which throws a TypeError on \<^verbatim>\<open>null\<close> and
  \<^verbatim>\<open>undefined\<close> (the text of the message is the engine's).
\<close>

fun toString :: "js_value \<Rightarrow> js_error + string" where
  "toString Undefined =
     Inl (TypeError ''Cannot read properties of undefined (reading 'toString')'')"
| "toString Null = Inl (TypeError ''Cannot read properties of null (reading 'toString')'')"
| "toString (JBool b) = Inr (if b then ''true'' else ''false'')"
| "toString (JStr s) = Inr s"

text \<open>
  \<^verbatim>\<open>FormData.append(name, v)\<close> and \<^verbatim>\<open>URLSearchParams.append(name, v)\<close> store a value
  that is not a file as a string.
\<close>

fun form_string :: "js_value \<Rightarrow> string" where
  "form_string Undefined = ''undefined''"
| "form_string Null = ''null''"
| "form_string (JBool b) = (if b then ''true'' else ''false'')"
| "form_string (JStr s) = s"

datatype json =
    JNull
  | JBoolean bool
  | JNumber int
  | JString string
  | JArray "json list"
  | JObject "(string \<times> json) list"

text \<open>What \<^verbatim>\<open>JSON.stringify\<close> writes for a property: nothing for \<^verbatim>\<open>undefined\<close>.\<close>

fun json_property :: "string \<Rightarrow> js_value \<Rightarrow> (string \<times> json) list" where
  "json_property k Undefined = []"
| "json_property k Null = [(k, JNull)]"
| "json_property k (JBool b) = [(k, JBoolean b)]"
| "json_property k (JStr s) = [(k, JString s)]"

record js_file =
  file_name :: string
  file_type :: string
  file_size :: nat

datatype form_value = FText string | FFile js_file

datatype http_method = GET | POST | DELETE

datatype request_body =
    NoBody
  | FormBody "(string \<times> form_value) list"
  | JsonBody json

text \<open>
  A request: \<open>req_query\<close> holds the entries of the \<^verbatim>\<open>URLSearchParams\<close> that a method
  writes after the question mark of its URL, empty for a URL without parameters. A path
  segment that a method interpolates is part of \<open>req_url\<close> as it was given.
\<close>

record request =
  req_method :: http_method
  req_url :: string
  req_query :: "(string \<times> string) list"
  req_headers :: "(string \<times> string) list"
  req_body :: request_body

text \<open>
  A response as \<^verbatim>\<open>fetch\<close> resolves it; \<open>resp_json\<close> is what \<^verbatim>\<open>response.json()\<close>
  yields: the parsed body, or for a body that is not JSON the message of the SyntaxError
  the engine raises. \<^verbatim>\<open>response.ok\<close> is true for the statuses 200 to 299.
\<close>

record response =
  status :: nat
  statusText :: string
  resp_json :: "string + json"

definition ok :: "response \<Rightarrow> bool" where
  "ok r = (200 \<le> status r \<and> status r \<le> 299)"

text \<open>\<^verbatim>\<open>fetch\<close> rejects when the server cannot be reached, and resolves otherwise.\<close>

datatype fetch_result = Rejected string | Resolved response

text \<open>
  A request has failed when \<^verbatim>\<open>fetch\<close> rejects (the server is out of reach) or the
  response is not a 2xx one.
\<close>

definition failed :: "fetch_result \<Rightarrow> bool" where
  "failed r = (case r of Rejected m \<Rightarrow> True | Resolved resp \<Rightarrow> \<not> ok resp)"

definition response_json :: "response \<Rightarrow> js_error + json" where
  "response_json r =
     (case resp_json r of
        Inl m \<Rightarrow> Inl (SyntaxError m)
      | Inr j \<Rightarrow> Inr j)"

section \<open>services/api.js\<close>

text \<open>
  Each method of \<^verbatim>\<open>ApiService\<close> returns the requests it issued, in order, and its
  result: \<open>Inl\<close> is the error it throws. \<open>API_BASE_URL\<close> is read from the environment
  at load time, and falls back to the local server when the variable is unset or empty;
  the methods take its value as \<open>base\<close>.
\<close>

definition API_BASE_URL :: "string option \<Rightarrow> string" where
  "API_BASE_URL env =
     (case env of
        None \<Rightarrow> ''http://localhost:8000''
      | Some u \<Rightarrow> if u = [] then ''http://localhost:8000'' else u)"

text \<open>
  \<^verbatim>\<open>uploadDocument(file, parishId = 'default', documentType = 'document', useTextract =
  false)\<close> builds its form before it calls \<^verbatim>\<open>fetch\<close>: when \<^verbatim>\<open>useTextract.toString()\<close>
  throws, no request is made.
\<close>

definition uploadDocument ::
  "(request \<Rightarrow> fetch_result) \<Rightarrow> string \<Rightarrow> js_file \<Rightarrow> js_value \<Rightarrow> js_value \<Rightarrow> js_value
     \<Rightarrow> request list \<times> (js_error + json)" where
  "uploadDocument fetch base f parishId0 documentType0 useTextract0 =
     (let parishId = default_param (JStr ''default'') parishId0;
          documentType = default_param (JStr ''document'') documentType0;
          useTextract = default_param (JBool False) useTextract0
      in case toString useTextract of
           Inl e \<Rightarrow> ([], Inl e)
         | Inr ut \<Rightarrow>
             (let formData =
                    [(''file'', FFile f),
                     (''parish_id'', FText (form_string parishId)),
                     (''document_type'', FText (form_string documentType)),
                     (''use_textract'', FText ut)];
                  req = \<lparr>req_method = POST, req_url = base @ ''/documents/upload'',
                         req_query = [], req_headers = [], req_body = FormBody formData\<rparr>
              in ([req],
                  case fetch req of
                    Rejected m \<Rightarrow> Inl (TypeError m)
                  | Resolved r \<Rightarrow>
                      if \<not> ok r then Inl (Error (''Upload failed: '' @ statusText r))
                      else response_json r)))"

text \<open>
  The sibling client, \<^verbatim>\<open>uploadDocument(params)\<close> of \<^verbatim>\<open>services/api.ts\<close>, builds its
  form from named parameters and appends the optional ones only when they are set;
  \<open>metadata\<close> is the JSON text of \<^verbatim>\<open>params.metadata\<close>, when there is one.
\<close>

fun js_truthy :: "js_value \<Rightarrow> bool" where
  "js_truthy Undefined = False"
| "js_truthy Null = False"
| "js_truthy (JBool b) = b"
| "js_truthy (JStr s) = (s \<noteq> [])"

definition upload_form_ts ::
  "js_file \<Rightarrow> string \<Rightarrow> js_value \<Rightarrow> js_value \<Rightarrow> string option
     \<Rightarrow> (string \<times> form_value) list" where
  "upload_form_ts f parishId documentType sermonDate metadata =
     [(''file'', FFile f), (''parish_id'', FText parishId)]
     @ (if js_truthy documentType
        then [(''document_type'', FText (form_string documentType))] else [])
     @ (if js_truthy sermonDate
        then [(''sermon_date'', FText (form_string sermonDate))] else [])
     @ (case metadata of None \<Rightarrow> [] | Some m \<Rightarrow> [(''metadata'', FText m)])"

text \<open>The request of \<^verbatim>\<open>chatWithAgent\<close>: the message and the document, as JSON.\<close>

definition chat_request :: "string \<Rightarrow> string \<Rightarrow> js_value \<Rightarrow> request" where
  "chat_request base msg documentId =
     \<lparr>req_method = POST, req_url = base @ ''/agent/chat'',
      req_query = [], req_headers = [(''Content-Type'', ''application/json'')],
      req_body = JsonBody (JObject ([(''message'', JString msg)]
                                    @ json_property ''document_id'' documentId))\<rparr>"

definition chatWithAgent ::
  "(request \<Rightarrow> fetch_result) \<Rightarrow> string \<Rightarrow> string \<Rightarrow> js_value
     \<Rightarrow> request list \<times> (js_error + json)" where
  "chatWithAgent fetch base msg documentId0 =
     (let documentId = default_param Null documentId0;
          req = chat_request base msg documentId
      in ([req],
          case fetch req of
            Rejected m \<Rightarrow> Inl (TypeError m)
          | Resolved r \<Rightarrow>
              if \<not> ok r then Inl (Error (''Chat request failed: '' @ statusText r))
              else response_json r))"

definition deleteDocument ::
  "(request \<Rightarrow> fetch_result) \<Rightarrow> string \<Rightarrow> string \<Rightarrow> request list \<times> (js_error + json)" where
  "deleteDocument fetch base documentId =
     (let req = \<lparr>req_method = DELETE, req_url = base @ ''/documents/'' @ documentId,
                 req_query = [], req_headers = [], req_body = NoBody\<rparr>
      in ([req],
          case fetch req of
            Rejected m \<Rightarrow> Inl (TypeError m)
          | Resolved r \<Rightarrow>
              if \<not> ok r then Inl (Error (''Failed to delete document: '' @ statusText r))
              else response_json r))"

text \<open>The request of \<^verbatim>\<open>searchDocuments\<close>: the query alone, as JSON.\<close>

definition search_request :: "string \<Rightarrow> string \<Rightarrow> request" where
  "search_request base query =
     \<lparr>req_method = POST, req_url = base @ ''/documents/search'',
      req_query = [], req_headers = [(''Content-Type'', ''application/json'')],
      req_body = JsonBody (JObject [(''query'', JString query)])\<rparr>"

definition searchDocuments ::
  "(request \<Rightarrow> fetch_result) \<Rightarrow> string \<Rightarrow> string \<Rightarrow> request list \<times> (js_error + json)" where
  "searchDocuments fetch base query =
     (let req = search_request base query
      in ([req],
          case fetch req of
            Rejected m \<Rightarrow> Inl (TypeError m)
          | Resolved r \<Rightarrow>
              if \<not> ok r then Inl (Error (''Failed to search documents: '' @ statusText r))
              else response_json r))"

text \<open>
  The methods that read: \<^verbatim>\<open>getDocumentInfo(fileId)\<close>, \<^verbatim>\<open>getDocumentsByDate(startDate,
  endDate = null, parishId = null, documentType = null)\<close>, which appends a parameter
  other than the start date only when it is set, \<^verbatim>\<open>getAgentInfo()\<close>,
  \<^verbatim>\<open>getSupportedFormats()\<close> and \<^verbatim>\<open>getDocumentContent(fileId)\<close>.
\<close>

definition getDocumentInfo ::
  "(request \<Rightarrow> fetch_result) \<Rightarrow> string \<Rightarrow> string \<Rightarrow> request list \<times> (js_error + json)" where
  "getDocumentInfo fetch base fileId =
     (let req = \<lparr>req_method = GET, req_url = base @ ''/documents/info/'' @ fileId,
                 req_query = [], req_headers = [], req_body = NoBody\<rparr>
      in ([req],
          case fetch req of
            Rejected m \<Rightarrow> Inl (TypeError m)
          | Resolved r \<Rightarrow>
              if \<not> ok r then Inl (Error (''Failed to fetch document info: '' @ statusText r))
              else response_json r))"

definition query_entry :: "string \<Rightarrow> js_value \<Rightarrow> (string \<times> string) list" where
  "query_entry k v = (if js_truthy v then [(k, form_string v)] else [])"

definition by_date_request :: "string \<Rightarrow> js_value \<Rightarrow> js_value \<Rightarrow> js_value \<Rightarrow> js_value \<Rightarrow> request" where
  "by_date_request base startDate endDate parishId documentType =
     \<lparr>req_method = GET, req_url = base @ ''/documents/by-date'',
      req_query = [(''start_date'', form_string startDate)]
                  @ query_entry ''end_date'' endDate
                  @ query_entry ''parish_id'' parishId
                  @ query_entry ''document_type'' documentType,
      req_headers = [], req_body = NoBody\<rparr>"

definition getDocumentsByDate ::
  "(request \<Rightarrow> fetch_result) \<Rightarrow> string \<Rightarrow> js_value \<Rightarrow> js_value \<Rightarrow> js_value \<Rightarrow> js_value
     \<Rightarrow> request list \<times> (js_error + json)" where
  "getDocumentsByDate fetch base startDate endDate0 parishId0 documentType0 =
     (let endDate = default_param Null endDate0;
          parishId = default_param Null parishId0;
          documentType = default_param Null documentType0;
          req = by_date_request base startDate endDate parishId documentType
      in ([req],
          case fetch req of
            Rejected m \<Rightarrow> Inl (TypeError m)
          | Resolved r \<Rightarrow>
              if \<not> ok r
              then Inl (Error (''Failed to fetch documents by date: '' @ statusText r))
              else response_json r))"

definition getAgentInfo ::
  "(request \<Rightarrow> fetch_result) \<Rightarrow> string \<Rightarrow> request list \<times> (js_error + json)" where
  "getAgentInfo fetch base =
     (let req = \<lparr>req_method = GET, req_url = base @ ''/agent/info'',
                 req_query = [], req_headers = [], req_body = NoBody\<rparr>
      in ([req],
          case fetch req of
            Rejected m \<Rightarrow> Inl (TypeError m)
          | Resolved r \<Rightarrow>
              if \<not> ok r then Inl (Error (''Failed to get agent info: '' @ statusText r))
              else response_json r))"

definition getSupportedFormats ::
  "(request \<Rightarrow> fetch_result) \<Rightarrow> string \<Rightarrow> request list \<times> (js_error + json)" where
  "getSupportedFormats fetch base =
     (let req = \<lparr>req_method = GET, req_url = base @ ''/documents/supported-formats'',
                 req_query = [], req_headers = [], req_body = NoBody\<rparr>
      in ([req],
          case fetch req of
            Rejected m \<Rightarrow> Inl (TypeError m)
          | Resolved r \<Rightarrow>
              if \<not> ok r then Inl (Error (''Failed to get supported formats: '' @ statusText r))
              else response_json r))"

definition getDocumentContent ::
  "(request \<Rightarrow> fetch_result) \<Rightarrow> string \<Rightarrow> string \<Rightarrow> request list \<times> (js_error + json)" where
  "getDocumentContent fetch base fileId =
     (let req = \<lparr>req_method = GET, req_url = base @ ''/documents/content/'' @ fileId,
                 req_query = [], req_headers = [], req_body = NoBody\<rparr>
      in ([req],
          case fetch req of
            Rejected m \<Rightarrow> Inl (TypeError m)
          | Resolved r \<Rightarrow>
              if \<not> ok r then Inl (Error (''Failed to get document content: '' @ statusText r))
              else response_json r))"

text \<open>
  The fields a request carries by name: the entries of a form, the properties of a JSON
  object, the parameters of the query. The tenant of the application is the parish,
  sent as \<^verbatim>\<open>parish_id\<close>.
\<close>

fun form_text :: "form_value \<Rightarrow> string option" where
  "form_text (FText s) = Some s"
| "form_text (FFile f) = None"

fun json_text :: "json \<Rightarrow> string option" where
  "json_text (JString s) = Some s"
| "json_text j = None"

fun body_field :: "request_body \<Rightarrow> string \<Rightarrow> string option" where
  "body_field NoBody k = None"
| "body_field (FormBody fd) k = Option.bind (map_of fd k) form_text"
| "body_field (JsonBody (JObject ps)) k = Option.bind (map_of ps k) json_text"
| "body_field (JsonBody j) k = None"

fun body_names :: "request_body \<Rightarrow> string list" where
  "body_names NoBody = []"
| "body_names (FormBody fd) = map fst fd"
| "body_names (JsonBody (JObject ps)) = map fst ps"
| "body_names (JsonBody j) = []"

definition field_names :: "request \<Rightarrow> string list" where
  "field_names r = body_names (req_body r) @ map fst (req_query r)"

definition carries_tenant :: "request \<Rightarrow> bool" where
  "carries_tenant r = (''parish_id'' \<in> set (field_names r))"

section \<open>components/DocumentUpload.js\<close>

text \<open>
  What \<^verbatim>\<open>handleFile\<close> does, in order: the callbacks of the component it calls, the
  state it sets and the requests it sends.
\<close>

datatype effect =
    OnError string
  | OnDocumentUploaded json
  | SetIsUploading bool
  | Sent request

definition allowedTypes :: "string list" where
  "allowedTypes =
     [''application/pdf'',
      ''application/msword'',
      ''application/vnd.openxmlformats-officedocument.wordprocessingml.document'',
      ''text/plain'']"

definition handleFile ::
  "(request \<Rightarrow> fetch_result) \<Rightarrow> string \<Rightarrow> string \<Rightarrow> js_file \<Rightarrow> effect list" where
  "handleFile fetch base sermonDate f =
     (if file_type f \<notin> set allowedTypes then
        [OnError ''Please upload a PDF, DOC, DOCX, or TXT file.'']
      else if file_size f > 10 * 1024 * 1024 then
        [OnError ''File size must be less than 10MB.'']
      else
        [SetIsUploading True]
        @ (let formattedDate = (if sermonDate \<noteq> [] then JStr sermonDate else Null);
               (reqs, result) =
                  uploadDocument fetch base f (JStr ''default'') (JStr ''document'') formattedDate
           in map Sent reqs
              @ (case result of
                   Inr res \<Rightarrow> [OnDocumentUploaded res]
                 | Inl e \<Rightarrow> [OnError (''Upload failed: '' @ message e)]))
        @ [SetIsUploading False])"

definition requests_of :: "effect list \<Rightarrow> request list" where
  "requests_of es = concat (map (\<lambda>e. case e of Sent r \<Rightarrow> [r] | _ \<Rightarrow> []) es)"

section \<open>The two chat clients\<close>

text \<open>
  \<^verbatim>\<open>String.prototype.trim\<close> removes white space and line terminators at both ends; in
  the 8-bit range these are the code units 9 to 13, 32 and 160. An empty string is the
  only string that is false in a condition.
\<close>

definition is_space :: "char \<Rightarrow> bool" where
  "is_space c = (of_char c \<in> {9, 10, 11, 12, 13, 32, 160 :: nat})"





subsection \<open>components/ChatInterface.js\<close>

datatype sender = User | Bot

record chat_message =
  msg_id :: nat
  msg_type :: sender
  content :: "json option"
  timestamp :: nat
  isError :: bool














subsection \<open>pages/ChatPage.tsx\<close>


datatype mutation_status = Idle | Pending | Succeeded | Failed















section \<open>The pipeline core\<close>

subsection \<open>Chunker\<close>

text \<open>
  The sources hold the browser client and the documentation of the backend; the code of
  the ingestion and retrieval pipeline is not among them. Its components are modelled
  here from the specification.
\<close>

text \<open>
  Modelled from the spec: where the Chunker ends a window ("splits on semantic boundaries
  when available"). Which positions of a text are paragraph or sentence boundaries is
  left to the parameter \<open>boundary\<close>. \<open>cut_point boundary str lo hi\<close> is the last boundary
  \<open>p\<close> with \<open>lo < p \<le> hi\<close>, and \<open>hi\<close> when there is none: a window is at most \<open>hi - lo\<close>
  units longer than its overlap with the window before, and never ends inside it.
\<close>

definition cut_point :: "(string \<Rightarrow> nat \<Rightarrow> bool) \<Rightarrow> string \<Rightarrow> nat \<Rightarrow> nat \<Rightarrow> nat" where
  "cut_point boundary str lo hi =
     (case filter (boundary str) (rev [Suc lo ..< Suc hi]) of
        [] \<Rightarrow> hi
      | p # ps \<Rightarrow> p)"

lemma cut_point_bounds:
  assumes "lo < hi"
  shows "lo < cut_point boundary str lo hi \<and> cut_point boundary str lo hi \<le> hi"
proof (cases "filter (boundary str) (rev [Suc lo ..< Suc hi])")
  case Nil
  with assms show ?thesis unfolding cut_point_def by (simp del: upt_Suc)
next
  case (Cons p ps)
  then have "p \<in> set (filter (boundary str) (rev [Suc lo ..< Suc hi]))"
    by (simp del: upt_Suc)
  then have "lo < p \<and> p \<le> hi" by auto
  with Cons show ?thesis unfolding cut_point_def by (simp del: upt_Suc)
qed

text \<open>
  Modelled from the spec: the windows of the Chunker from \<open>start\<close> on, as pairs of
  offsets into the text (from, to). A window is at most \<open>windowSize\<close> units long; the
  last one ends with the text; the next window starts \<open>overlap\<close> units before the end of
  this one. The spec gives no behaviour for \<open>overlap \<ge> windowSize\<close>, where no sequence of
  windows meets its contract; the model yields no window there.
\<close>

function spans ::
  "(string \<Rightarrow> nat \<Rightarrow> bool) \<Rightarrow> string \<Rightarrow> nat \<Rightarrow> nat \<Rightarrow> nat \<Rightarrow> (nat \<times> nat) list" where
  "spans boundary str windowSize overlap start =
     (if windowSize \<le> overlap \<or> length str \<le> start then []
      else if length str \<le> start + windowSize then [(start, length str)]
      else (start, cut_point boundary str (start + overlap) (start + windowSize))
           # spans boundary str windowSize overlap
               (cut_point boundary str (start + overlap) (start + windowSize) - overlap))"
  by pat_completeness auto
termination
proof (relation "measure (\<lambda>(boundary, str, windowSize, overlap, start). length str - start)")
  show "wf (measure (\<lambda>(boundary, str, windowSize, overlap, start). length str - start))"
    by simp
next
  fix boundary :: "string \<Rightarrow> nat \<Rightarrow> bool" and str :: string
    and windowSize overlap start :: nat
  assume a: "\<not> (windowSize \<le> overlap \<or> length str \<le> start)"
    and b: "\<not> length str \<le> start + windowSize"
  from a have "start + overlap < start + windowSize" by simp
  then have "start + overlap < cut_point boundary str (start + overlap) (start + windowSize)"
    by (simp add: cut_point_bounds)
  with a show "((boundary, str, windowSize, overlap,
                 cut_point boundary str (start + overlap) (start + windowSize) - overlap),
                (boundary, str, windowSize, overlap, start))
               \<in> measure (\<lambda>(boundary, str, windowSize, overlap, start). length str - start)"
    by (simp del: add_less_cancel_left) arith
qed

declare spans.simps [simp del]

text \<open>
  A window carries its zero-based sequence index, its offsets into the text and its text.
\<close>

record window =
  seq_index :: nat
  start_offset :: nat
  end_offset :: nat
  window_text :: string

definition make_window :: "string \<Rightarrow> nat \<times> nat \<times> nat \<Rightarrow> window" where
  "make_window str = (\<lambda>(i, s, e).
     \<lparr>seq_index = i, start_offset = s, end_offset = e,
      window_text = take (e - s) (drop s str)\<rparr>)"

text \<open>
  Modelled from the spec: the Chunker (section 4.2), whose code is not among the sources.
  Its contract is \<^verbatim>\<open>chunk(text, windowSize, overlap) -> ordered sequence of chunks\<close>:
  windows of at most \<open>windowSize\<close> units that overlap by \<open>overlap\<close> units, in order,
  indexed from 0; an empty or whitespace-only text gives no chunk. The unit is the
  character.
\<close>

definition chunk :: "(string \<Rightarrow> nat \<Rightarrow> bool) \<Rightarrow> string \<Rightarrow> nat \<Rightarrow> nat \<Rightarrow> window list" where
  "chunk boundary str windowSize overlap =
     (if list_all is_space str then []
      else map (make_window str) (enumerate 0 (spans boundary str windowSize overlap 0)))"

text \<open>A sentence ends after a full stop, a question mark, an exclamation mark or a line feed.\<close>

definition sentence_end :: "string \<Rightarrow> nat \<Rightarrow> bool" where
  "sentence_end str p =
     (0 < p \<and> p \<le> length str \<and> str ! (p - 1) \<in> set ''.?!'' \<union> {CHR 0x0A})"

text \<open>
  Two predicates for the proofs. The chain of consecutive windows: each begins \<open>ov\<close>
  units before the end of the one before it, and begins and ends later than it. A
  single window: not empty, inside the text, at most \<open>windowSize\<close> units long.
\<close>

fun linked :: "nat \<Rightarrow> (nat \<times> nat) list \<Rightarrow> bool" where
  "linked ov [] = True"
| "linked ov [x] = True"
| "linked ov ((s1, e1) # (s2, e2) # xs) =
     (s2 + ov = e1 \<and> s1 < s2 \<and> e1 < e2 \<and> linked ov ((s2, e2) # xs))"

definition span_ok :: "string \<Rightarrow> nat \<Rightarrow> nat \<Rightarrow> nat \<times> nat \<Rightarrow> bool" where
  "span_ok str windowSize ov = (\<lambda>(s, e). s < e \<and> e \<le> length str \<and> e - s \<le> windowSize)"

subsection \<open>Extractor\<close>

text \<open>
  The errors of the pipeline, as the spec's taxonomy names them.
\<close>

datatype pipeline_error =
    UnsupportedFormat
  | ExtractionFailed
  | EmbeddingUnavailable
  | IndexWriteFailed
  | TenantScopeViolation
  | NotFound

datatype file_format = PlainText | Pdf | LegacyWord | ModernWord

text \<open>
  Modelled from the spec: the formats the Extractor supports, "plain text" and the
  "structured document formats (e.g., PDF, legacy and modern word-processor formats)".
  The declared type is the media type the client sends with the file.
\<close>

definition format_of :: "string \<Rightarrow> file_format option" where
  "format_of declaredType =
     (if declaredType = ''text/plain'' then Some PlainText
      else if declaredType = ''application/pdf'' then Some Pdf
      else if declaredType = ''application/msword'' then Some LegacyWord
      else if declaredType
                = ''application/vnd.openxmlformats-officedocument.wordprocessingml.document''
      then Some ModernWord
      else None)"

text \<open>
  Modelled from the spec: the Extractor (section 4.1), whose code is not among the
  sources. Its contract is \<^verbatim>\<open>extract(bytes, declaredType) -> text\<close>: plain text is
  decoded byte for byte, the other formats by a format-specific text extraction, here
  the parameter \<open>parse\<close>, which yields \<open>None\<close> on a damaged file; an unsupported input
  fails with \<open>UnsupportedFormat\<close>, a corrupt one with \<open>ExtractionFailed\<close>. The function
  is named \<open>extract_text\<close> here.
\<close>

definition extract_text ::
  "(file_format \<Rightarrow> string \<Rightarrow> string option) \<Rightarrow> string \<Rightarrow> string \<Rightarrow> pipeline_error + string" where
  "extract_text parse bytes declaredType =
     (case format_of declaredType of
        None \<Rightarrow> Inl UnsupportedFormat
      | Some PlainText \<Rightarrow> Inr bytes
      | Some fmt \<Rightarrow>
          (case parse fmt bytes of
             None \<Rightarrow> Inl ExtractionFailed
           | Some str \<Rightarrow> Inr str))"

subsection \<open>Embedder, IndexWriter and the ingestion of one document\<close>

text \<open>
  Modelled from the spec: the Embedder (section 4.3), whose code is not among the
  sources. Its contract is \<^verbatim>\<open>embed(batch of texts) -> batch of vectors\<close>, all or
  nothing and in the order of the texts. The embedding service is the parameter
  \<open>service\<close>, which yields \<open>None\<close> once its retries are exhausted; the texts go to it as
  one batch.
\<close>

definition embed :: "(string list \<Rightarrow> 'v list option) \<Rightarrow> string list \<Rightarrow> pipeline_error + 'v list" where
  "embed service texts =
     (case service texts of
        None \<Rightarrow> Inl EmbeddingUnavailable
      | Some vs \<Rightarrow> if length vs = length texts then Inr vs else Inl EmbeddingUnavailable)"

record 'v chunk_record =
  parent_document :: string
  tenant_id :: string
  chunk_window :: window
  embedding :: 'v

datatype ingestion_status =
    JobPending
  | JobExtracting
  | JobChunking
  | JobEmbedding
  | JobIndexing
  | JobReady
  | JobFailed

record ingestion_job =
  job_document :: string
  job_status :: ingestion_status
  failing_stage :: "ingestion_status option"
  last_error :: "pipeline_error option"

definition job_failed :: "string \<Rightarrow> ingestion_status \<Rightarrow> pipeline_error \<Rightarrow> ingestion_job" where
  "job_failed doc stage e =
     \<lparr>job_document = doc, job_status = JobFailed, failing_stage = Some stage,
      last_error = Some e\<rparr>"

definition job_ready :: "string \<Rightarrow> ingestion_job" where
  "job_ready doc =
     \<lparr>job_document = doc, job_status = JobReady, failing_stage = None, last_error = None\<rparr>"

text \<open>
  Modelled from the spec: the IngestionPipeline (section 4.4), whose code is not among
  the sources, run on one document over the search index, which holds for each document
  the chunk set retrieval sees. The stages run in sequence; a failing stage leaves the
  index as it was and is recorded in the job; the indexing stage replaces the document's
  chunk set by the new one. \<open>index_up\<close> says whether the index accepts the write.
\<close>

definition ingest ::
  "(file_format \<Rightarrow> string \<Rightarrow> string option) \<Rightarrow> (string \<Rightarrow> nat \<Rightarrow> bool)
     \<Rightarrow> (string list \<Rightarrow> 'v list option) \<Rightarrow> bool \<Rightarrow> nat \<Rightarrow> nat
     \<Rightarrow> string \<Rightarrow> string \<Rightarrow> string \<Rightarrow> string
     \<Rightarrow> (string \<Rightarrow> 'v chunk_record list)
     \<Rightarrow> ingestion_job \<times> (string \<Rightarrow> 'v chunk_record list)" where
  "ingest parse boundary service index_up windowSize overlap tenant doc bytes declaredType idx =
     (case extract_text parse bytes declaredType of
        Inl e \<Rightarrow> (job_failed doc JobExtracting e, idx)
      | Inr str \<Rightarrow>
          (let ws = chunk boundary str windowSize overlap
           in case embed service (map window_text ws) of
                Inl e \<Rightarrow> (job_failed doc JobEmbedding e, idx)
              | Inr vs \<Rightarrow>
                  if \<not> index_up then (job_failed doc JobIndexing IndexWriteFailed, idx)
                  else (job_ready doc,
                        idx(doc := map (\<lambda>(w, v). \<lparr>parent_document = doc, tenant_id = tenant,
                                                    chunk_window = w, embedding = v\<rparr>)
                                      (zip ws vs)))))"

subsection \<open>ContextAssembler\<close>

text \<open>
  A RetrievalResult is a list of retrieved chunks, each with its relevance score and its
  source document.
\<close>

record retrieved =
  chunk_text :: string
  score :: real
  source_document :: string
  source_filename :: string
  chunk_index :: nat

record citation =
  cited_document :: string
  cited_filename :: string
  cited_index :: nat

record assembled =
  contextBlock :: string
  citations :: "citation list"
  no_relevant_context :: bool

definition cite :: "retrieved \<Rightarrow> citation" where
  "cite r = \<lparr>cited_document = source_document r, cited_filename = source_filename r,
             cited_index = chunk_index r\<rparr>"

text \<open>
  Modelled from the spec: the order in which the ContextAssembler takes the chunks,
  "descending score order"; chunks of equal score keep the order of the retrieval result.
\<close>

definition ranked :: "retrieved list \<Rightarrow> retrieved list" where
  "ranked result = sort_key (\<lambda>r. - score r) result"

text \<open>
  Modelled from the spec: the chunks the ContextAssembler includes, taken in order "until
  the next chunk would exceed \<open>maxContextSize\<close>"; sizes are counted in characters.
\<close>

fun take_fitting :: "nat \<Rightarrow> retrieved list \<Rightarrow> retrieved list" where
  "take_fitting budget [] = []"
| "take_fitting budget (r # rs) =
     (if length (chunk_text r) \<le> budget
      then r # take_fitting (budget - length (chunk_text r)) rs
      else [])"

definition included :: "retrieved list \<Rightarrow> nat \<Rightarrow> retrieved list" where
  "included result maxContextSize = take_fitting maxContextSize (ranked result)"

text \<open>
  Modelled from the spec: the ContextAssembler (section 4.6), whose code is not among
  the sources. Its contract is \<^verbatim>\<open>assemble(RetrievalResult, maxContextSize) ->
  (contextBlock, citations)\<close>: the texts of the included chunks are concatenated, the
  chunks after them are dropped whole, each included chunk gives one citation, and with
  no chunk included the context is empty and the signal "no relevant context" is set.
\<close>

definition assemble :: "retrieved list \<Rightarrow> nat \<Rightarrow> assembled" where
  "assemble result maxContextSize =
     \<lparr>contextBlock = concat (map chunk_text (included result maxContextSize)),
      citations = map cite (included result maxContextSize),
      no_relevant_context = (included result maxContextSize = [])\<rparr>"

section \<open>Servers and inputs to run the client against\<close>

text \<open>Three servers to run the client against: out of reach, accepting, failing.\<close>

definition fetch_unreachable :: "request \<Rightarrow> fetch_result" where
  "fetch_unreachable r = Rejected ''Failed to fetch''"

definition fetch_accepts :: "request \<Rightarrow> fetch_result" where
  "fetch_accepts r =
     Resolved \<lparr>status = 200, statusText = ''OK'',
               resp_json = Inr (JObject [(''success'', JBoolean True)])\<rparr>"

definition fetch_fails :: "request \<Rightarrow> fetch_result" where
  "fetch_fails r =
     Resolved \<lparr>status = 503, statusText = ''Service Unavailable'',
               resp_json = Inl ''Unexpected end of JSON input''\<rparr>"

definition homily_pdf :: js_file where
  "homily_pdf = \<lparr>file_name = ''homily.pdf'', file_type = ''application/pdf'',
                  file_size = 6 * 1024 * 1024\<rparr>"

definition oversized_pdf :: js_file where
  "oversized_pdf = \<lparr>file_name = ''missal.pdf'', file_type = ''application/pdf'',
                     file_size = 11 * 1024 * 1024\<rparr>"







definition holiday_png :: js_file where
  "holiday_png = \<lparr>file_name = ''holiday.png'', file_type = ''image/png'', file_size = 2048\<rparr>"

definition homily_text :: string where
  "homily_text = ''Love God. Love your neighbour. Be at peace with all.''"

text \<open>A text extraction that finds an empty file damaged.\<close>

definition parse_nonempty :: "file_format \<Rightarrow> string \<Rightarrow> string option" where
  "parse_nonempty fmt bytes = (if bytes = [] then None else Some bytes)"

definition sample_result :: "retrieved list" where
  "sample_result =
     [\<lparr>chunk_text = ''Mass is at nine.'', score = 0.5, source_document = ''doc-1'',
       source_filename = ''bulletin.txt'', chunk_index = 0\<rparr>,
      \<lparr>chunk_text = ''Confession is on Saturday at five.'', score = 0.9,
       source_document = ''doc-1'', source_filename = ''bulletin.txt'', chunk_index = 2\<rparr>,
      \<lparr>chunk_text = ''The parish office opens at ten.'', score = 0.7,
       source_document = ''doc-2'', source_filename = ''office.txt'', chunk_index = 0\<rparr>]"

section \<open>Properties of the browser client\<close>

subsection \<open>The tenant at the client's boundary\<close>

text \<open>
  Claim C1, as stated, asks every data-access operation to take the tenant and to send
  it. The search request of \<^verbatim>\<open>searchDocuments\<close> has no \<^verbatim>\<open>parish_id\<close>, neither in
  its body nor in its query.
\<close>

theorem search_request_carries_no_tenant:
  "map carries_tenant
     (fst (searchDocuments fetch_accepts ''http://localhost:8000'' ''mass times'')) = [False]"
  by (simp add: searchDocuments_def search_request_def carries_tenant_def field_names_def
        Let_def)

lemma by_date_fields:
  "field_names (by_date_request base startDate endDate parishId documentType)
     = ''start_date'' # map fst (query_entry ''end_date'' endDate)
       @ map fst (query_entry ''parish_id'' parishId)
       @ map fst (query_entry ''document_type'' documentType)"
  by (simp add: field_names_def by_date_request_def)

lemma by_date_carries_tenant:
  "carries_tenant (by_date_request base startDate endDate parishId documentType)
     = js_truthy parishId"
  by (auto simp: carries_tenant_def by_date_fields query_entry_def)

lemma by_date_parish:
  "map_of (req_query (by_date_request base startDate endDate parishId documentType))
     ''parish_id''
     = (if js_truthy parishId then Some (form_string parishId) else None)"
  by (simp add: by_date_request_def query_entry_def)

text \<open>
  Claim C1, amended: in \<^verbatim>\<open>api.js\<close> the tenant is nowhere a mandatory parameter. Upload
  and the listing by date take it as an optional parameter: upload sends it as the
  \<^verbatim>\<open>parish_id\<close> of its form, \<^verbatim>\<open>default\<close> when the caller gives none, and
  \<^verbatim>\<open>getDocumentsByDate\<close> sends it as the query parameter \<^verbatim>\<open>parish_id\<close> exactly when
  the caller gives one. Search, chat, delete, document info, document content, agent
  info and supported formats take no tenant, and their requests have no \<^verbatim>\<open>parish_id\<close>
  in body or query.
\<close>

theorem tenant_optional_in_api:
  "map carries_tenant (fst (searchDocuments fetch base q)) = [False]
   \<and> map carries_tenant (fst (chatWithAgent fetch base msg d)) = [False]
   \<and> map carries_tenant (fst (deleteDocument fetch base i)) = [False]
   \<and> map carries_tenant (fst (getDocumentInfo fetch base i)) = [False]
   \<and> map carries_tenant (fst (getDocumentContent fetch base i)) = [False]
   \<and> map carries_tenant (fst (getAgentInfo fetch base)) = [False]
   \<and> map carries_tenant (fst (getSupportedFormats fetch base)) = [False]
   \<and> list_all carries_tenant (fst (uploadDocument fetch base f p dt u))
   \<and> map (\<lambda>r. body_field (req_body r) ''parish_id'')
          (fst (uploadDocument fetch base f Undefined dt (JBool b))) = [Some ''default'']
   \<and> map (\<lambda>r. body_field (req_body r) ''parish_id'')
          (fst (uploadDocument fetch base f (JStr t) dt (JBool b))) = [Some t]
   \<and> map carries_tenant (fst (getDocumentsByDate fetch base sd ed p dt))
       = [js_truthy (default_param Null p)]
   \<and> map (\<lambda>r. map_of (req_query r) ''parish_id'')
          (fst (getDocumentsByDate fetch base sd ed Undefined dt)) = [None]
   \<and> map (\<lambda>r. map_of (req_query r) ''parish_id'')
          (fst (getDocumentsByDate fetch base sd ed (JStr t) dt))
       = [if t = [] then None else Some t]"
proof -
  have 1: "map carries_tenant (fst (searchDocuments fetch base q)) = [False]"
    by (simp add: searchDocuments_def search_request_def carries_tenant_def field_names_def
          Let_def)
  have 2: "map carries_tenant (fst (chatWithAgent fetch base msg d)) = [False]"
    by (cases "default_param Null d")
       (simp_all add: chatWithAgent_def chat_request_def carries_tenant_def field_names_def
          Let_def)
  have 3: "map carries_tenant (fst (deleteDocument fetch base i)) = [False]"
    by (simp add: deleteDocument_def carries_tenant_def field_names_def Let_def)
  have 4: "map carries_tenant (fst (getDocumentInfo fetch base i)) = [False]"
    by (simp add: getDocumentInfo_def carries_tenant_def field_names_def Let_def)
  have 5: "map carries_tenant (fst (getDocumentContent fetch base i)) = [False]"
    by (simp add: getDocumentContent_def carries_tenant_def field_names_def Let_def)
  have 6: "map carries_tenant (fst (getAgentInfo fetch base)) = [False]"
    by (simp add: getAgentInfo_def carries_tenant_def field_names_def Let_def)
  have 7: "map carries_tenant (fst (getSupportedFormats fetch base)) = [False]"
    by (simp add: getSupportedFormats_def carries_tenant_def field_names_def Let_def)
  have 8: "list_all carries_tenant (fst (uploadDocument fetch base f p dt u))"
    by (simp add: uploadDocument_def carries_tenant_def field_names_def Let_def
             split: sum.splits)
  have 9: "map (\<lambda>r. body_field (req_body r) ''parish_id'')
          (fst (uploadDocument fetch base f Undefined dt (JBool b))) = [Some ''default'']"
    by (simp add: uploadDocument_def default_param_def Let_def)
  have 10: "map (\<lambda>r. body_field (req_body r) ''parish_id'')
          (fst (uploadDocument fetch base f (JStr t) dt (JBool b))) = [Some t]"
    by (simp add: uploadDocument_def default_param_def Let_def)
  have 11: "map carries_tenant (fst (getDocumentsByDate fetch base sd ed p dt))
       = [js_truthy (default_param Null p)]"
    by (simp add: getDocumentsByDate_def Let_def by_date_carries_tenant)
  have 12: "map (\<lambda>r. map_of (req_query r) ''parish_id'')
          (fst (getDocumentsByDate fetch base sd ed Undefined dt)) = [None]"
    by (simp add: getDocumentsByDate_def Let_def by_date_parish default_param_def)
  have 13: "map (\<lambda>r. map_of (req_query r) ''parish_id'')
          (fst (getDocumentsByDate fetch base sd ed (JStr t) dt))
       = [if t = [] then None else Some t]"
    by (simp add: getDocumentsByDate_def Let_def by_date_parish default_param_def)
  from 1 2 3 4 5 6 7 8 9 10 11 12 13 show ?thesis by blast
qed

subsection \<open>What \<open>handleFile\<close> sends\<close>

text \<open>
  With a sermon date, a file of an allowed type within the size limit is sent in one
  request, whose fourth form entry holds the date; without a date nothing is sent, as
  \<^verbatim>\<open>null.toString()\<close> throws before the request is made.
\<close>

lemma handleFile_dated_request:
  assumes "file_type f \<in> set allowedTypes" and "file_size f \<le> 10 * 1024 * 1024"
    and "d \<noteq> []"
  shows "requests_of (handleFile fetch base d f) =
           [\<lparr>req_method = POST, req_url = base @ ''/documents/upload'', req_query = [],
             req_headers = [],
             req_body = FormBody [(''file'', FFile f), (''parish_id'', FText ''default''),
                                  (''document_type'', FText ''document''),
                                  (''use_textract'', FText d)]\<rparr>]"
  using assms
  by (simp add: handleFile_def uploadDocument_def requests_of_def default_param_def Let_def
           split: sum.splits fetch_result.splits)

lemma handleFile_undated_no_request:
  assumes "file_type f \<in> set allowedTypes" and "file_size f \<le> 10 * 1024 * 1024"
  shows "handleFile fetch base [] f =
           [SetIsUploading True,
            OnError ''Upload failed: Cannot read properties of null (reading 'toString')'',
            SetIsUploading False]"
  using assms
  by (simp add: handleFile_def uploadDocument_def default_param_def)

text \<open>The sibling client sends a date that is set as the form entry \<^verbatim>\<open>sermon_date\<close>.\<close>

lemma upload_form_ts_sends_sermon_date:
  "d \<noteq> [] \<Longrightarrow>
     map_of (upload_form_ts f parishId documentType (JStr d) metadata) ''sermon_date''
       = Some (FText d)"
  by (simp add: upload_form_ts_def map_of_append)

lemma homily_pdf_accepted:
  "file_type homily_pdf \<in> set allowedTypes" "file_size homily_pdf \<le> 10 * 1024 * 1024"
  by (simp_all add: homily_pdf_def allowedTypes_def)

text \<open>
  Claim C7 on the code: the upload of \<^verbatim>\<open>homily.pdf\<close> with the sermon date
  2024-03-17 sends the date as the value of \<^verbatim>\<open>use_textract\<close>, and no entry of the
  form is a date of the document.
\<close>

theorem handleFile_sends_date_as_use_textract:
  "map req_body
     (requests_of (handleFile fetch_accepts ''http://localhost:8000'' ''2024-03-17'' homily_pdf))
     = [FormBody [(''file'', FFile homily_pdf), (''parish_id'', FText ''default''),
                  (''document_type'', FText ''document''),
                  (''use_textract'', FText ''2024-03-17'')]]"
  using handleFile_dated_request [OF homily_pdf_accepted, of "''2024-03-17''"]
  by simp

subsection \<open>The size ceiling of \<open>handleFile\<close>\<close>

text \<open>
  Claim C5, as stated, has the ceiling configured: were it set to 5 MiB, a PDF of 6 MiB
  would have to be rejected. \<^verbatim>\<open>handleFile\<close> sends it.
\<close>

theorem upload_above_a_lower_ceiling_is_sent:
  "5 * 1024 * 1024 < file_size homily_pdf
   \<and> requests_of (handleFile fetch_accepts ''http://localhost:8000'' ''2024-03-17'' homily_pdf)
       \<noteq> []"
  using handleFile_dated_request [OF homily_pdf_accepted, of "''2024-03-17''"]
  by (simp add: homily_pdf_def)

text \<open>
  Claim C5, amended: a file of more than 10 MiB (10 * 1024 * 1024 bytes) is rejected with
  an error before any request is sent, and this ceiling is the constant written in
  \<^verbatim>\<open>handleFile\<close>: a file of an allowed type is refused for its size exactly when it
  is larger than 10485760 bytes, whatever the server, the base URL and the date.
\<close>

theorem handleFile_rejects_above_10MiB:
  "(10 * 1024 * 1024 < file_size f \<longrightarrow>
      requests_of (handleFile fetch base d f) = [] \<and>
      (handleFile fetch base d f = [OnError ''Please upload a PDF, DOC, DOCX, or TXT file.''] \<or>
       handleFile fetch base d f = [OnError ''File size must be less than 10MB.'']))
   \<and> (file_type f \<in> set allowedTypes \<longrightarrow>
        (handleFile fetch base d f = [OnError ''File size must be less than 10MB.'']
           \<longleftrightarrow> 10485760 < file_size f))"
  by (auto simp add: handleFile_def requests_of_def split: prod.splits)

text \<open>A PDF of 11 MiB is refused for its size and nothing is sent.\<close>

theorem handleFile_rejects_above_10MiB_witness:
  "10 * 1024 * 1024 < file_size oversized_pdf
   \<and> file_type oversized_pdf \<in> set allowedTypes
   \<and> requests_of (handleFile fetch_accepts ''http://localhost:8000'' ''2024-03-17'' oversized_pdf)
       = []
   \<and> handleFile fetch_accepts ''http://localhost:8000'' ''2024-03-17'' oversized_pdf
       = [OnError ''File size must be less than 10MB.'']"
  using handleFile_rejects_above_10MiB
          [of oversized_pdf fetch_accepts "''http://localhost:8000''" "''2024-03-17''"]
  by (simp add: oversized_pdf_def allowedTypes_def handleFile_def requests_of_def)

subsection \<open>Failed requests\<close>

text \<open>
  Claim C8: when the search request fails, \<^verbatim>\<open>searchDocuments\<close> throws, and so does
  \<^verbatim>\<open>chatWithAgent\<close> when the chat request fails; neither returns a result. A server
  out of reach gives the TypeError of \<^verbatim>\<open>fetch\<close>, a response that is not a 2xx one an
  Error that carries its status text.
\<close>

theorem failed_search_throws:
  "(failed (fetch (search_request base q))
      \<longrightarrow> (\<exists>e. snd (searchDocuments fetch base q) = Inl e))
   \<and> (failed (fetch (chat_request base msg (default_param Null d)))
        \<longrightarrow> (\<exists>e. snd (chatWithAgent fetch base msg d) = Inl e))
   \<and> (fetch (search_request base q) = Rejected m
        \<longrightarrow> snd (searchDocuments fetch base q) = Inl (TypeError m))
   \<and> (fetch (search_request base q) = Resolved r \<and> \<not> ok r
        \<longrightarrow> snd (searchDocuments fetch base q)
              = Inl (Error (''Failed to search documents: '' @ statusText r)))
   \<and> (fetch (chat_request base msg (default_param Null d)) = Rejected m
        \<longrightarrow> snd (chatWithAgent fetch base msg d) = Inl (TypeError m))
   \<and> (fetch (chat_request base msg (default_param Null d)) = Resolved r \<and> \<not> ok r
        \<longrightarrow> snd (chatWithAgent fetch base msg d)
              = Inl (Error (''Chat request failed: '' @ statusText r)))"
  by (auto simp: failed_def searchDocuments_def chatWithAgent_def Let_def
           split: fetch_result.splits)

text \<open>A search answered with status 503, and a chat request to a server out of reach.\<close>

theorem failed_search_throws_witness:
  "failed (fetch_fails (search_request ''http://localhost:8000'' ''mass times''))
   \<and> snd (searchDocuments fetch_fails ''http://localhost:8000'' ''mass times'')
       = Inl (Error ''Failed to search documents: Service Unavailable'')
   \<and> failed (fetch_unreachable
               (chat_request ''http://localhost:8000'' ''When is Mass?''
                  (default_param Null Undefined)))
   \<and> snd (chatWithAgent fetch_unreachable ''http://localhost:8000'' ''When is Mass?'' Undefined)
       = Inl (TypeError ''Failed to fetch'')"
  using failed_search_throws [of fetch_fails "''http://localhost:8000''" "''mass times''"
          "''When is Mass?''" Undefined]
        failed_search_throws [of fetch_unreachable "''http://localhost:8000''" "''mass times''"
          "''When is Mass?''" Undefined]
  by (simp add: failed_def fetch_fails_def fetch_unreachable_def ok_def searchDocuments_def
        chatWithAgent_def Let_def search_request_def chat_request_def default_param_def)

subsection \<open>The send guard of the chat clients\<close>























section \<open>Properties of the pipeline core\<close>

subsection \<open>Chunker\<close>

lemma spans_from:
  "ov < windowSize \<Longrightarrow> start + ov < length str \<Longrightarrow>
     spans boundary str windowSize ov start \<noteq> []
     \<and> fst (hd (spans boundary str windowSize ov start)) = start
     \<and> start + ov < snd (hd (spans boundary str windowSize ov start))
     \<and> snd (last (spans boundary str windowSize ov start)) = length str
     \<and> linked ov (spans boundary str windowSize ov start)
     \<and> list_all (span_ok str windowSize ov) (spans boundary str windowSize ov start)"
proof (induction boundary str windowSize ov start rule: spans.induct)
  case (1 boundary str windowSize ov start)
  from "1.prems" have guard: "\<not> (windowSize \<le> ov \<or> length str \<le> start)" by simp
  show ?case
  proof (cases "length str \<le> start + windowSize")
    case True
    with guard have "spans boundary str windowSize ov start = [(start, length str)]"
      by (subst spans.simps) simp
    with "1.prems" True show ?thesis by (simp add: span_ok_def)
  next
    case False
    define c where "c = cut_point boundary str (start + ov) (start + windowSize)"
    from "1.prems" have "start + ov < start + windowSize" by simp
    then have c: "start + ov < c" "c \<le> start + windowSize"
      using cut_point_bounds [of "start + ov" "start + windowSize" boundary str]
      by (simp_all add: c_def)
    with False have clen: "c - ov + ov < length str" by simp
    have eq: "spans boundary str windowSize ov start
                = (start, c) # spans boundary str windowSize ov (c - ov)"
      using guard False unfolding c_def by (subst spans.simps) simp
    note ih = "1.IH" [OF guard False "1.prems"(1) clen [unfolded c_def], folded c_def]
    obtain s2 e2 rest where tl_eq: "spans boundary str windowSize ov (c - ov) = (s2, e2) # rest"
      using ih by (cases "spans boundary str windowSize ov (c - ov)") auto
    from ih have s2: "s2 = c - ov" and e2: "c < e2"
      and lst: "snd (last ((s2, e2) # rest)) = length str"
      and lk: "linked ov ((s2, e2) # rest)"
      and oks: "list_all (span_ok str windowSize ov) ((s2, e2) # rest)"
      using c unfolding tl_eq by auto
    have ok: "span_ok str windowSize ov (start, c)"
      using c False by (simp add: span_ok_def)
    have lk2: "linked ov ((start, c) # (s2, e2) # rest)"
      using lk s2 e2 c by simp
    have lst2: "snd (last ((start, c) # (s2, e2) # rest)) = length str"
      using lst by simp
    show ?thesis
      unfolding eq tl_eq using c(1) lk2 lst2 ok oks by simp
  qed
qed

lemma spans_top:
  assumes "ov < windowSize" and "str \<noteq> []"
  shows "spans boundary str windowSize ov 0 \<noteq> []
     \<and> fst (hd (spans boundary str windowSize ov 0)) = 0
     \<and> snd (last (spans boundary str windowSize ov 0)) = length str
     \<and> linked ov (spans boundary str windowSize ov 0)
     \<and> list_all (span_ok str windowSize ov) (spans boundary str windowSize ov 0)"
proof (cases "ov < length str")
  case True
  then show ?thesis using spans_from [of ov windowSize 0 str boundary] assms by simp
next
  case False
  with assms have "spans boundary str windowSize ov 0 = [(0, length str)]"
    by (subst spans.simps) simp
  with assms False show ?thesis by (simp add: span_ok_def)
qed

lemma spans_degenerate: "windowSize \<le> ov \<Longrightarrow> spans boundary str windowSize ov start = []"
  by (subst spans.simps) simp

lemma spans_props:
  "linked ov (spans boundary str windowSize ov 0)
   \<and> list_all (span_ok str windowSize ov) (spans boundary str windowSize ov 0)"
proof (cases "ov < windowSize \<and> str \<noteq> []")
  case True
  then show ?thesis using spans_top by blast
next
  case False
  then have "spans boundary str windowSize ov 0 = []"
    by (subst spans.simps) auto
  then show ?thesis by simp
qed

lemma linked_nth:
  "linked ov xs \<Longrightarrow> Suc i < length xs \<Longrightarrow>
     fst (xs ! Suc i) + ov = snd (xs ! i) \<and> fst (xs ! i) < fst (xs ! Suc i)
     \<and> snd (xs ! i) < snd (xs ! Suc i)"
proof (induction ov xs arbitrary: i rule: linked.induct)
  case (3 ov s1 e1 s2 e2 xs)
  then show ?case by (cases i) auto
qed simp_all

lemma chunk_length:
  "\<not> list_all is_space str \<Longrightarrow>
     length (chunk boundary str windowSize ov) = length (spans boundary str windowSize ov 0)"
  by (simp add: chunk_def)

lemma chunk_nth:
  assumes "\<not> list_all is_space str" and "i < length (spans boundary str windowSize ov 0)"
  shows "chunk boundary str windowSize ov ! i =
           \<lparr>seq_index = i,
            start_offset = fst (spans boundary str windowSize ov 0 ! i),
            end_offset = snd (spans boundary str windowSize ov 0 ! i),
            window_text = take (snd (spans boundary str windowSize ov 0 ! i)
                                - fst (spans boundary str windowSize ov 0 ! i))
                            (drop (fst (spans boundary str windowSize ov 0 ! i)) str)\<rparr>"
  using assms
  by (simp add: chunk_def make_window_def nth_enumerate_eq split: prod.splits)

lemma chunk_indices:
  "map seq_index (chunk boundary str windowSize ov)
     = [0 ..< length (chunk boundary str windowSize ov)]"
proof (cases "list_all is_space str")
  case True
  then show ?thesis by (simp add: chunk_def)
next
  case False
  have "map seq_index (map (make_window str) xs) = map fst xs" for xs
    by (induction xs) (auto simp: make_window_def)
  then have "map seq_index (chunk boundary str windowSize ov)
               = map fst (enumerate 0 (spans boundary str windowSize ov 0))"
    using False unfolding chunk_def by presburger
  then show ?thesis
    using False by (simp add: chunk_length)
qed

lemma overlap_text:
  assumes "s2 + ov = e1" and "s1 < s2" and "e1 < e2" and "e2 \<le> length str"
  shows "take ov (take (e2 - s2) (drop s2 str))
           = drop (length (take (e1 - s1) (drop s1 str)) - ov) (take (e1 - s1) (drop s1 str))"
    and "length (take ov (take (e2 - s2) (drop s2 str))) = ov"
proof -
  from assms have len1: "length (take (e1 - s1) (drop s1 str)) = e1 - s1" by simp
  from assms have "ov \<le> e2 - s2" by simp
  then have l: "take ov (take (e2 - s2) (drop s2 str)) = take ov (drop s2 str)"
    by (simp add: min_def)
  from assms have "e1 - s1 - (e1 - s1 - ov) = ov" and "e1 - s1 - ov + s1 = s2" by simp_all
  then have r: "drop (e1 - s1 - ov) (take (e1 - s1) (drop s1 str)) = take ov (drop s2 str)"
    by (simp add: drop_take)
  show "take ov (take (e2 - s2) (drop s2 str))
           = drop (length (take (e1 - s1) (drop s1 str)) - ov) (take (e1 - s1) (drop s1 str))"
    unfolding len1 l r ..
  from assms show "length (take ov (take (e2 - s2) (drop s2 str))) = ov"
    by simp
qed

text \<open>
  Claim C3: every window of \<open>chunk\<close> is at most \<open>windowSize\<close> characters long and is the
  text between its offsets; each window begins exactly \<open>ov\<close> characters before the end
  of the window before it, so that the last \<open>ov\<close> characters of the one are the first
  \<open>ov\<close> characters of the next (here also when the next is the final window); and the
  sequence indices are 0, 1, 2, ... in order.
\<close>

theorem chunk_windows:
  "(\<forall>w \<in> set (chunk boundary str windowSize ov).
       length (window_text w) \<le> windowSize
       \<and> window_text w = take (end_offset w - start_offset w) (drop (start_offset w) str))
   \<and> (\<forall>i. Suc i < length (chunk boundary str windowSize ov) \<longrightarrow>
         start_offset (chunk boundary str windowSize ov ! Suc i) + ov
           = end_offset (chunk boundary str windowSize ov ! i)
         \<and> start_offset (chunk boundary str windowSize ov ! i)
             < start_offset (chunk boundary str windowSize ov ! Suc i)
         \<and> end_offset (chunk boundary str windowSize ov ! i)
             < end_offset (chunk boundary str windowSize ov ! Suc i)
         \<and> take ov (window_text (chunk boundary str windowSize ov ! Suc i))
             = drop (length (window_text (chunk boundary str windowSize ov ! i)) - ov)
                 (window_text (chunk boundary str windowSize ov ! i))
         \<and> length (take ov (window_text (chunk boundary str windowSize ov ! Suc i))) = ov)
   \<and> map seq_index (chunk boundary str windowSize ov)
       = [0 ..< length (chunk boundary str windowSize ov)]"
proof (cases "list_all is_space str")
  case True
  then show ?thesis by (simp add: chunk_def)
next
  case False
  let ?xs = "spans boundary str windowSize ov 0"
  let ?cs = "chunk boundary str windowSize ov"
  have lk: "linked ov ?xs" and oks: "list_all (span_ok str windowSize ov) ?xs"
    using spans_props by blast+
  have ok_nth: "span_ok str windowSize ov (?xs ! i)" if "i < length ?xs" for i
    using oks that by (simp add: list_all_length)
  have bounded: "length (window_text w) \<le> windowSize
       \<and> window_text w = take (end_offset w - start_offset w) (drop (start_offset w) str)"
    if "w \<in> set ?cs" for w
  proof -
    from that obtain i where i: "i < length ?cs" and w: "w = ?cs ! i"
      by (auto simp: in_set_conv_nth)
    from i False have i': "i < length ?xs" by (simp add: chunk_length)
    from ok_nth [OF i'] show ?thesis
      unfolding w chunk_nth [OF False i'] by (auto simp: span_ok_def split: prod.splits)
  qed
  have pair: "start_offset (?cs ! Suc i) + ov = end_offset (?cs ! i)
         \<and> start_offset (?cs ! i) < start_offset (?cs ! Suc i)
         \<and> end_offset (?cs ! i) < end_offset (?cs ! Suc i)
         \<and> take ov (window_text (?cs ! Suc i))
             = drop (length (window_text (?cs ! i)) - ov) (window_text (?cs ! i))
         \<and> length (take ov (window_text (?cs ! Suc i))) = ov"
    if "Suc i < length ?cs" for i
  proof -
    from that False have si: "Suc i < length ?xs" by (simp add: chunk_length)
    then have i: "i < length ?xs" by simp
    obtain s1 e1 where x1: "?xs ! i = (s1, e1)" by (cases "?xs ! i")
    obtain s2 e2 where x2: "?xs ! Suc i = (s2, e2)" by (cases "?xs ! Suc i")
    from linked_nth [OF lk si] x1 x2 have l: "s2 + ov = e1" "s1 < s2" "e1 < e2" by simp_all
    from ok_nth [OF si] x2 have e2: "e2 \<le> length str" by (simp add: span_ok_def)
    show ?thesis
      unfolding chunk_nth [OF False si] chunk_nth [OF False i] x1 x2
      using l overlap_text [OF l e2] by simp
  qed
  from bounded pair chunk_indices [of boundary str windowSize ov] show ?thesis by blast
qed

text \<open>
  With \<open>ov < windowSize\<close> the windows of a text that is not blank cover it from its first
  character to its last.
\<close>

lemma chunk_covers:
  assumes "ov < windowSize" and "\<not> list_all is_space str"
  shows "chunk boundary str windowSize ov \<noteq> []
         \<and> start_offset (hd (chunk boundary str windowSize ov)) = 0
         \<and> end_offset (last (chunk boundary str windowSize ov)) = length str"
proof -
  let ?xs = "spans boundary str windowSize ov 0"
  from assms have ne: "str \<noteq> []" by auto
  from spans_top [OF assms(1) ne, of boundary]
  have xs: "?xs \<noteq> []" "fst (hd ?xs) = 0" "snd (last ?xs) = length str" by simp_all
  then have "hd ?xs = ?xs ! 0" "last ?xs = ?xs ! (length ?xs - 1)"
    by (simp_all add: hd_conv_nth last_conv_nth)
  moreover have "chunk boundary str windowSize ov \<noteq> []"
    using xs(1) chunk_length [OF assms(2), of boundary windowSize ov] by auto
  moreover from this have "hd (chunk boundary str windowSize ov) = chunk boundary str windowSize ov ! 0"
    "last (chunk boundary str windowSize ov)
       = chunk boundary str windowSize ov ! (length ?xs - 1)"
    using chunk_length [OF assms(2), of boundary windowSize ov]
    by (simp_all add: hd_conv_nth last_conv_nth)
  ultimately show ?thesis
    using xs chunk_nth [OF assms(2), of 0 boundary windowSize ov]
      chunk_nth [OF assms(2), of "length ?xs - 1" boundary windowSize ov]
    by simp
qed

text \<open>The windows of a short homily, with windows of 20 characters that overlap by 5.\<close>

theorem chunk_windows_witness:
  "map window_text (chunk sentence_end homily_text 20 5)
     = [''Love God.'', '' God. Love your neig'', '' neighbour.'', ''bour. Be at peace wi'',
        ''ce with all.'']
   \<and> map start_offset (chunk sentence_end homily_text 20 5) = [0, 4, 19, 25, 40]
   \<and> map end_offset (chunk sentence_end homily_text 20 5) = [9, 24, 30, 45, 52]
   \<and> length (window_text (chunk sentence_end homily_text 20 5 ! 1)) \<le> 20
   \<and> start_offset (chunk sentence_end homily_text 20 5 ! 2) + 5
       = end_offset (chunk sentence_end homily_text 20 5 ! 1)
   \<and> take 5 (window_text (chunk sentence_end homily_text 20 5 ! 2))
       = drop (length (window_text (chunk sentence_end homily_text 20 5 ! 1)) - 5)
           (window_text (chunk sentence_end homily_text 20 5 ! 1))
   \<and> map seq_index (chunk sentence_end homily_text 20 5) = [0, 1, 2, 3, 4]"
proof -
  have texts: "map window_text (chunk sentence_end homily_text 20 5)
     = [''Love God.'', '' God. Love your neig'', '' neighbour.'', ''bour. Be at peace wi'',
        ''ce with all.'']"
    by code_simp
  have starts: "map start_offset (chunk sentence_end homily_text 20 5) = [0, 4, 19, 25, 40]"
    by code_simp
  have ends: "map end_offset (chunk sentence_end homily_text 20 5) = [9, 24, 30, 45, 52]"
    by code_simp
  have len: "length (chunk sentence_end homily_text 20 5) = 5"
    using arg_cong [OF texts, of length] by simp
  then have mem: "chunk sentence_end homily_text 20 5 ! 1
                    \<in> set (chunk sentence_end homily_text 20 5)"
    and two: "Suc 1 < length (chunk sentence_end homily_text 20 5)"
    by simp_all
  note main = chunk_windows [of sentence_end homily_text 20 5]
  from main mem have "length (window_text (chunk sentence_end homily_text 20 5 ! 1)) \<le> 20"
    by blast
  moreover from main two have
    "start_offset (chunk sentence_end homily_text 20 5 ! Suc 1) + 5
       = end_offset (chunk sentence_end homily_text 20 5 ! 1)
     \<and> take 5 (window_text (chunk sentence_end homily_text 20 5 ! Suc 1))
       = drop (length (window_text (chunk sentence_end homily_text 20 5 ! 1)) - 5)
           (window_text (chunk sentence_end homily_text 20 5 ! 1))"
    by blast
  moreover from main len have "map seq_index (chunk sentence_end homily_text 20 5) = [0, 1, 2, 3, 4]"
    by (simp add: upt_rec)
  ultimately show ?thesis
    using texts starts ends by (simp add: numeral_2_eq_2)
qed

subsection \<open>Extractor\<close>

lemma format_of_allowed: "format_of t = None \<longleftrightarrow> t \<notin> set allowedTypes"
  by (simp add: format_of_def allowedTypes_def)

text \<open>
  Claim C6: an input whose declared type is not a supported format fails with
  \<open>UnsupportedFormat\<close>, a damaged input of a supported format fails with
  \<open>ExtractionFailed\<close>, and each error arises in its own case only, so the caller can tell
  them apart. The client's \<^verbatim>\<open>handleFile\<close> draws the same line: it reports "not a
  supported file" for exactly the declared types the extractor does not support, and
  never for a supported one.
\<close>

theorem extraction_failures_distinguished:
  "(format_of t = None \<longrightarrow> extract_text parse bytes t = Inl UnsupportedFormat)
   \<and> (format_of t = Some fmt \<and> fmt \<noteq> PlainText \<and> parse fmt bytes = None
        \<longrightarrow> extract_text parse bytes t = Inl ExtractionFailed)
   \<and> (extract_text parse bytes t = Inl UnsupportedFormat \<longleftrightarrow> format_of t = None)
   \<and> (extract_text parse bytes t = Inl ExtractionFailed
        \<longleftrightarrow> (\<exists>fmt. format_of t = Some fmt \<and> fmt \<noteq> PlainText \<and> parse fmt bytes = None))
   \<and> UnsupportedFormat \<noteq> ExtractionFailed
   \<and> (format_of (file_type f) = None
        \<longrightarrow> handleFile fetch base d f
              = [OnError ''Please upload a PDF, DOC, DOCX, or TXT file.''])
   \<and> (format_of (file_type f) \<noteq> None
        \<longrightarrow> OnError ''Please upload a PDF, DOC, DOCX, or TXT file.''
              \<notin> set (handleFile fetch base d f))"
proof -
  have a: "(format_of t = None \<longrightarrow> extract_text parse bytes t = Inl UnsupportedFormat)
   \<and> (format_of t = Some fmt \<and> fmt \<noteq> PlainText \<and> parse fmt bytes = None
        \<longrightarrow> extract_text parse bytes t = Inl ExtractionFailed)
   \<and> (extract_text parse bytes t = Inl UnsupportedFormat \<longleftrightarrow> format_of t = None)
   \<and> (extract_text parse bytes t = Inl ExtractionFailed
        \<longleftrightarrow> (\<exists>fmt. format_of t = Some fmt \<and> fmt \<noteq> PlainText \<and> parse fmt bytes = None))
   \<and> UnsupportedFormat \<noteq> ExtractionFailed"
    by (auto simp: extract_text_def split: option.splits file_format.splits)
  have b: "format_of (file_type f) = None
        \<longrightarrow> handleFile fetch base d f
              = [OnError ''Please upload a PDF, DOC, DOCX, or TXT file.'']"
    by (simp add: format_of_allowed handleFile_def)
  have c: "format_of (file_type f) \<noteq> None
        \<longrightarrow> OnError ''Please upload a PDF, DOC, DOCX, or TXT file.''
              \<notin> set (handleFile fetch base d f)"
    by (auto simp: format_of_allowed handleFile_def split: prod.splits sum.splits)
  from a b c show ?thesis by blast
qed

text \<open>
  A PNG image is refused as unsupported, by the extractor and by the client; an empty PDF
  is damaged; the client reports a failed upload of a PDF as such.
\<close>

theorem extraction_failures_witness:
  "format_of ''image/png'' = None
   \<and> extract_text parse_nonempty ''PNG'' ''image/png'' = Inl UnsupportedFormat
   \<and> format_of ''application/pdf'' = Some Pdf
   \<and> parse_nonempty Pdf [] = None
   \<and> extract_text parse_nonempty [] ''application/pdf'' = Inl ExtractionFailed
   \<and> format_of (file_type holiday_png) = None
   \<and> handleFile fetch_accepts ''http://localhost:8000'' ''2024-03-17'' holiday_png
       = [OnError ''Please upload a PDF, DOC, DOCX, or TXT file.'']
   \<and> format_of (file_type homily_pdf) = Some Pdf
   \<and> handleFile fetch_fails ''http://localhost:8000'' ''2024-03-17'' homily_pdf
       = [SetIsUploading True,
          Sent \<lparr>req_method = POST, req_url = ''http://localhost:8000/documents/upload'',
                req_query = [], req_headers = [],
                req_body = FormBody [(''file'', FFile homily_pdf),
                                     (''parish_id'', FText ''default''),
                                     (''document_type'', FText ''document''),
                                     (''use_textract'', FText ''2024-03-17'')]\<rparr>,
          OnError ''Upload failed: Upload failed: Service Unavailable'',
          SetIsUploading False]"
  using extraction_failures_distinguished [of "''image/png''" parse_nonempty "''PNG''" Pdf
          holiday_png fetch_accepts "''http://localhost:8000''" "''2024-03-17''"]
        extraction_failures_distinguished [of "''application/pdf''" parse_nonempty "[]" Pdf
          homily_pdf fetch_fails "''http://localhost:8000''" "''2024-03-17''"]
  by (simp add: format_of_def parse_nonempty_def holiday_png_def homily_pdf_def
        handleFile_def uploadDocument_def default_param_def allowedTypes_def fetch_fails_def
        ok_def Let_def)

subsection \<open>Ingestion\<close>

lemma map_chunk_window_zip:
  "length vs = length ws \<Longrightarrow>
     map (chunk_window \<circ> (\<lambda>(w, v). \<lparr>parent_document = doc, tenant_id = tenant,
                                           chunk_window = w, embedding = v\<rparr>)) (zip ws vs) = ws"
proof (induction ws arbitrary: vs)
  case Nil
  then show ?case by simp
next
  case (Cons w ws)
  then show ?case by (cases vs) auto
qed

text \<open>
  An ingestion leaves every other document's chunk set as it was, and the document's own
  chunk set either as it was (the run failed) or made of the new windows alone.
\<close>

lemma ingest_all_or_nothing:
  "(\<forall>d. d \<noteq> doc \<longrightarrow>
      snd (ingest parse boundary service up windowSize ov tenant doc bytes ty idx) d = idx d)
   \<and> (snd (ingest parse boundary service up windowSize ov tenant doc bytes ty idx) doc = idx doc
       \<or> (\<exists>str. extract_text parse bytes ty = Inr str
             \<and> map chunk_window
                  (snd (ingest parse boundary service up windowSize ov tenant doc bytes ty idx) doc)
                 = chunk boundary str windowSize ov))"
  by (auto simp: ingest_def embed_def Let_def map_chunk_window_zip
           split: sum.splits option.splits)

subsection \<open>ContextAssembler\<close>

lemma take_fitting_prefix: "prefix (take_fitting budget rs) rs"
  by (induction rs arbitrary: budget) auto

lemma take_fitting_size:
  "length (concat (map chunk_text (take_fitting budget rs))) \<le> budget"
proof (induction rs arbitrary: budget)
  case Nil
  then show ?case by simp
next
  case (Cons r rs)
  show ?case
  proof (cases "length (chunk_text r) \<le> budget")
    case True
    with Cons [of "budget - length (chunk_text r)"] show ?thesis by simp
  next
    case False
    then show ?thesis by simp
  qed
qed

lemma take_fitting_stops:
  "take_fitting budget rs \<noteq> rs \<Longrightarrow>
     budget < length (concat (map chunk_text (take_fitting budget rs)))
              + length (chunk_text (rs ! length (take_fitting budget rs)))"
proof (induction rs arbitrary: budget)
  case Nil
  then show ?case by simp
next
  case (Cons r rs)
  show ?case
  proof (cases "length (chunk_text r) \<le> budget")
    case True
    with Cons.prems have "take_fitting (budget - length (chunk_text r)) rs \<noteq> rs" by simp
    from Cons.IH [OF this] True show ?thesis by simp
  next
    case False
    then show ?thesis by simp
  qed
qed

lemma ranked_descending:
  "sorted (map (\<lambda>r. - score r) (ranked result))" "set (ranked result) = set result"
  "length (ranked result) = length result"
  by (simp_all add: ranked_def)

text \<open>
  Claim C9: the context block of \<open>assemble\<close> is at most \<open>maxContextSize\<close> characters long
  and is the concatenation of the whole texts of the chunks included, which are the
  first chunks in descending score order; a chunk is left out whole, and the first one
  left out is one that would have overflowed the bound.
\<close>

theorem assemble_bounded_whole_chunks:
  "length (contextBlock (assemble result maxContextSize)) \<le> maxContextSize
   \<and> contextBlock (assemble result maxContextSize)
       = concat (map chunk_text (included result maxContextSize))
   \<and> citations (assemble result maxContextSize) = map cite (included result maxContextSize)
   \<and> prefix (included result maxContextSize) (ranked result)
   \<and> sorted (map (\<lambda>r. - score r) (ranked result))
   \<and> set (ranked result) = set result
   \<and> (included result maxContextSize \<noteq> ranked result \<longrightarrow>
        maxContextSize
          < length (contextBlock (assemble result maxContextSize))
            + length (chunk_text (ranked result ! length (included result maxContextSize))))"
  using take_fitting_size [of maxContextSize "ranked result"]
    take_fitting_prefix [of maxContextSize "ranked result"]
    take_fitting_stops [of maxContextSize "ranked result"]
    ranked_descending [of result]
  by (simp add: assemble_def included_def)

text \<open>
  Three retrieved chunks and a bound of 60 characters: the best chunk is included, the
  second would overflow, and the third is dropped with it.
\<close>

theorem assemble_witness:
  "map chunk_text (ranked sample_result)
     = [''Confession is on Saturday at five.'', ''The parish office opens at ten.'',
        ''Mass is at nine.'']
   \<and> contextBlock (assemble sample_result 60) = ''Confession is on Saturday at five.''
   \<and> map cited_index (citations (assemble sample_result 60)) = [2]
   \<and> included sample_result 60 \<noteq> ranked sample_result
   \<and> length (contextBlock (assemble sample_result 60)) \<le> 60
   \<and> (60::nat) < length (contextBlock (assemble sample_result 60))
                   + length (chunk_text (ranked sample_result ! length (included sample_result 60)))"
proof -
  have rk: "ranked sample_result
              = [sample_result ! 1, sample_result ! 2, sample_result ! 0]"
    by (simp add: ranked_def sample_result_def)
  have inc: "included sample_result 60 = [sample_result ! 1]"
    unfolding included_def rk by (simp add: sample_result_def)
  have ne: "included sample_result 60 \<noteq> ranked sample_result"
    unfolding inc rk by simp
  note main = assemble_bounded_whole_chunks [of sample_result 60]
  from main ne have
    "length (contextBlock (assemble sample_result 60)) \<le> 60
     \<and> (60::nat) < length (contextBlock (assemble sample_result 60))
                   + length (chunk_text (ranked sample_result ! length (included sample_result 60)))"
    by blast
  moreover have "map chunk_text (ranked sample_result)
     = [''Confession is on Saturday at five.'', ''The parish office opens at ten.'',
        ''Mass is at nine.'']"
    unfolding rk by (simp add: sample_result_def)
  moreover have "contextBlock (assemble sample_result 60) = ''Confession is on Saturday at five.''"
    "map cited_index (citations (assemble sample_result 60)) = [2]"
    unfolding assemble_def inc by (simp_all add: sample_result_def cite_def)
  ultimately show ?thesis using ne by blast
qed

end
